theory Spec2Isabelle
  imports
    Complex_Main
    "HOL-Library.Log_Nat"
    "HOL-Library.List_Lexorder"
    "HOL-Library.Product_Lexorder"
begin

section \<open>Values\<close>

text \<open>
  The parser of \<^verbatim>\<open>app.py\<close> reads cells of an SQLite file through Python's
  \<^verbatim>\<open>sqlite3\<close> module, which hands every cell over as \<^verbatim>\<open>None\<close>, an \<^verbatim>\<open>int\<close>, a
  \<^verbatim>\<open>str\<close> or a \<^verbatim>\<open>bytes\<close> object. Strings and byte strings are lists of bytes
  (a \<^verbatim>\<open>str\<close> is its UTF-8 encoding). Cells of storage class REAL (Python floats) are
  outside this development: every statement below is about artifacts whose cells are
  NULL, INTEGER, TEXT or BLOB.
\<close>

datatype sqlval = SNull | SInt int | SText string | SBlob string

text \<open>
  What the parser puts into its result dictionaries is a Python value again; booleans are
  part of that universe although \<^verbatim>\<open>sqlite3\<close> never produces one.
\<close>

datatype pyval = PyNone | PyBool bool | PyInt int | PyStr string | PyBytes string

text \<open>Every exception class the modelled code can meet; all derive from \<^verbatim>\<open>Exception\<close>.\<close>

datatype pyexc =
    TypeError | OverflowError | ValueError | OSError | ZeroDivisionError
  | OperationalError | UnboundLocalError

text \<open>A computation that may raise: \<open>Inl\<close> carries the exception.\<close>

fun and_then :: "pyexc + 'a \<Rightarrow> ('a \<Rightarrow> pyexc + 'b) \<Rightarrow> pyexc + 'b" where
  "and_then (Inl e) f = Inl e"
| "and_then (Inr x) f = f x"

fun of_sql :: "sqlval \<Rightarrow> pyval" where
  "of_sql SNull = PyNone"
| "of_sql (SInt i) = PyInt i"
| "of_sql (SText s) = PyStr s"
| "of_sql (SBlob b) = PyBytes b"

text \<open>Python's truth value of a cell, as \<^verbatim>\<open>x or d\<close> and \<^verbatim>\<open>a if x else b\<close> test it.\<close>

fun truthy :: "sqlval \<Rightarrow> bool" where
  "truthy SNull = False"
| "truthy (SInt i) = (i \<noteq> 0)"
| "truthy (SText s) = (s \<noteq> [])"
| "truthy (SBlob b) = (b \<noteq> [])"

definition py_or :: "sqlval \<Rightarrow> pyval \<Rightarrow> pyval" where
  "py_or x d = (if truthy x then of_sql x else d)"

text \<open>\<^verbatim>\<open>x == 0\<close> on a cell: only the integer zero compares equal to \<^verbatim>\<open>0\<close>.\<close>

fun eq_zero :: "sqlval \<Rightarrow> bool" where
  "eq_zero (SInt i) = (i = 0)"
| "eq_zero _ = False"

subsection \<open>Decimal text of integers\<close>

definition digit :: "nat \<Rightarrow> char" where
  "digit d = ''0123456789'' ! (d mod 10)"

function str_nat :: "nat \<Rightarrow> string" where
  "str_nat n = (if n < 10 then [digit n] else str_nat (n div 10) @ [digit n])"
  by pat_completeness auto
termination
  by (relation "measure id") auto

declare str_nat.simps [simp del]

definition str_int :: "int \<Rightarrow> string" where
  "str_int i = (if i < 0 then CHR ''-'' # str_nat (nat (- i)) else str_nat (nat i))"

text \<open>The \<^verbatim>\<open>%m\<close>, \<^verbatim>\<open>%d\<close>, \<^verbatim>\<open>%H\<close>, \<^verbatim>\<open>%M\<close> and \<^verbatim>\<open>%S\<close> fields: two digits.\<close>

definition pad2 :: "int \<Rightarrow> string" where
  "pad2 i = (if i < 10 then CHR ''0'' # str_int i else str_int i)"

section \<open>The host's date library\<close>

text \<open>
  \<^verbatim>\<open>datetime\<close> of the Python standard library, as far as the three converters use it:
  the proleptic Gregorian calendar over the years 1 to 9999, day ordinals counted from
  0001-01-01 = 1, durations as a whole number of microseconds.
\<close>

record datetime =
  year :: int
  month :: int
  day :: int
  hour :: int
  minute :: int
  second :: int
  microsecond :: int

definition MINYEAR :: int where "MINYEAR = 1"
definition MAXYEAR :: int where "MAXYEAR = 9999"

definition us_per_second :: int where "us_per_second = 1000000"
definition us_per_day :: int where "us_per_day = 86400 * 1000000"

definition is_leap :: "int \<Rightarrow> bool" where
  "is_leap y = (y mod 4 = 0 \<and> (y mod 100 \<noteq> 0 \<or> y mod 400 = 0))"

definition days_in_month :: "int \<Rightarrow> int \<Rightarrow> int" where
  "days_in_month y m =
     (if m = 2 then (if is_leap y then 29 else 28)
      else if m \<in> {4, 6, 9, 11} then 30 else 31)"

definition days_before_year :: "int \<Rightarrow> int" where
  "days_before_year y = (let p = y - 1 in p * 365 + p div 4 - p div 100 + p div 400)"

definition days_before_month :: "int \<Rightarrow> int \<Rightarrow> int" where
  "days_before_month y m = (\<Sum>k \<leftarrow> [1 ..< nat m]. days_in_month y (int k))"

definition ymd2ord :: "int \<Rightarrow> int \<Rightarrow> int \<Rightarrow> int" where
  "ymd2ord y m d = days_before_year y + days_before_month y m + d"

text \<open>
  The year of a day ordinal: whole 400-, 100-, 4- and 1-year cycles, where the last day
  of a 4- or 400-year cycle belongs to the cycle's last (leap) year.
\<close>

definition year_of_ord :: "int \<Rightarrow> int" where
  "year_of_ord n =
     (let z = n - 1;
          n400 = z div 146097; r400 = z mod 146097;
          n100 = r400 div 36524; r100 = r400 mod 36524;
          n4 = r100 div 1461; r4 = r100 mod 1461;
          n1 = r4 div 365;
          y = n400 * 400 + n100 * 100 + n4 * 4 + n1 + 1
      in if n1 = 4 \<or> n100 = 4 then y - 1 else y)"

text \<open>The month of the \<open>r\<close>-th day (from 0) of year \<open>y\<close>, searched from month \<open>m\<close> on.\<close>

fun month_from :: "nat \<Rightarrow> int \<Rightarrow> int \<Rightarrow> int \<Rightarrow> int \<times> int" where
  "month_from 0 y m r = (m, r + 1)"
| "month_from (Suc k) y m r =
     (if r < days_in_month y m then (m, r + 1)
      else month_from k y (m + 1) (r - days_in_month y m))"

definition ord2ymd :: "int \<Rightarrow> int \<times> int \<times> int" where
  "ord2ymd n =
     (let y = year_of_ord n;
          (m, d) = month_from 11 y 1 (n - days_before_year y - 1)
      in (y, m, d))"

text \<open>A point in time as microseconds since 0001-01-01T00:00:00 minus one day.\<close>

definition to_us :: "datetime \<Rightarrow> int" where
  "to_us t =
     ((ymd2ord (year t) (month t) (day t) * 24 + hour t) * 60 + minute t) * 60 * us_per_second
       + second t * us_per_second + microsecond t"

definition of_us :: "int \<Rightarrow> datetime" where
  "of_us u =
     (let (y, m, d) = ord2ymd (u div us_per_day);
          r = u mod us_per_day;
          s = r div us_per_second
      in \<lparr> year = y, month = m, day = d,
           hour = s div 3600, minute = s mod 3600 div 60, second = s mod 60,
           microsecond = r mod us_per_second \<rparr>)"

text \<open>
  \<^verbatim>\<open>timedelta(microseconds=n)\<close> for an integer \<open>n\<close>: exact, and refused with
  \<^verbatim>\<open>OverflowError\<close> when the normalised day count leaves \<open>\<plusminus>999999999\<close>.
\<close>

definition timedelta :: "int \<Rightarrow> pyexc + int" where
  "timedelta n =
     (if \<bar>n div us_per_day\<bar> \<le> 999999999 then Inr n else Inl OverflowError)"

text \<open>
  The points in time a \<^verbatim>\<open>datetime\<close> can hold: the days of the years \<open>MINYEAR\<close> to
  \<open>MAXYEAR\<close>. \<^verbatim>\<open>datetime + timedelta\<close> raises \<^verbatim>\<open>OverflowError\<close> (``date value out of
  range'') when the sum is none of them.
\<close>

definition representable :: "int \<Rightarrow> bool" where
  "representable u =
     (ymd2ord MINYEAR 1 1 \<le> u div us_per_day \<and> u div us_per_day \<le> ymd2ord MAXYEAR 12 31)"

definition datetime_add :: "datetime \<Rightarrow> int \<Rightarrow> pyexc + datetime" where
  "datetime_add t delta =
     (let u = to_us t + delta
      in if representable u then Inr (of_us u) else Inl OverflowError)"

text \<open>
  \<^verbatim>\<open>strftime('%Y-%m-%d %H:%M:%S UTC')\<close>. The C library prints \<^verbatim>\<open>%Y\<close> as the plain
  decimal year (no padding below 1000, as glibc does).
\<close>

definition strftime :: "datetime \<Rightarrow> string" where
  "strftime t =
     str_int (year t) @ ''-'' @ pad2 (month t) @ ''-'' @ pad2 (day t) @ '' '' @
     pad2 (hour t) @ '':'' @ pad2 (minute t) @ '':'' @ pad2 (second t) @ '' UTC''"

subsection \<open>Floats inside the gecko converter\<close>

text \<open>
  \<^verbatim>\<open>firefox_time / 1000000\<close> is Python's true division: the quotient rounded to the
  nearest binary64 value, ties to even. A finite float is the rational number it stands
  for; \<open>to_double\<close> rounds a rational to 53 significant bits (exponents from \<open>-1074\<close>).
\<close>

definition pow2 :: "int \<Rightarrow> rat" where
  "pow2 k = (if 0 \<le> k then of_int (2 ^ nat k) else 1 / of_int (2 ^ nat (- k)))"

definition round_half_even :: "rat \<Rightarrow> int" where
  "round_half_even x =
     (let f = \<lfloor>x\<rfloor>; d = x - of_int f
      in if d < 1 / 2 then f else if 1 / 2 < d then f + 1
         else if even f then f else f + 1)"

text \<open>\<open>\<lfloor>log\<^sub>2 x\<rfloor>\<close> of a positive rational, from the bit lengths of its fraction.\<close>

definition ilog2 :: "rat \<Rightarrow> int" where
  "ilog2 x =
     (let (p, q) = quotient_of x;
          k = bitlen p - bitlen q
      in if pow2 k \<le> x then k else k - 1)"

definition to_double :: "rat \<Rightarrow> rat" where
  "to_double x =
     (if x = 0 then 0
      else let e = max (ilog2 \<bar>x\<bar> - 52) (- 1074)
           in sgn x * of_int (round_half_even (\<bar>x\<bar> / pow2 e)) * pow2 e)"

text \<open>\<^verbatim>\<open>a / b\<close> on integers; a quotient beyond the largest float is an \<^verbatim>\<open>OverflowError\<close>.\<close>

definition int_truediv :: "int \<Rightarrow> int \<Rightarrow> pyexc + rat" where
  "int_truediv a b =
     (if b = 0 then Inl ZeroDivisionError
      else let r = to_double (of_int a / of_int b)
           in if 2 ^ 1024 \<le> \<lfloor>\<bar>r\<bar>\<rfloor> then Inl OverflowError else Inr r)"

text \<open>
  \<^verbatim>\<open>datetime.fromtimestamp(x, tz=timezone.utc)\<close> for a finite float \<open>x\<close>, as CPython on
  a 64-bit POSIX host computes it: the fraction is scaled to microseconds in floating
  point and rounded half-even, the seconds must fit \<^verbatim>\<open>time_t\<close> (\<^verbatim>\<open>OverflowError\<close>),
  the year must fit the C library's \<^verbatim>\<open>int\<close> (\<^verbatim>\<open>OSError\<close>) and then the years 1 to 9999
  (\<^verbatim>\<open>ValueError\<close>).
\<close>

definition fromtimestamp_utc :: "rat \<Rightarrow> pyexc + datetime" where
  "fromtimestamp_utc x =
     (let ip = (if 0 \<le> x then \<lfloor>x\<rfloor> else \<lceil>x\<rceil>);
          fp = round_half_even (to_double ((x - of_int ip) * 1000000));
          (s, us) = (if 1000000 \<le> fp then (ip + 1, fp - 1000000)
                     else if fp < 0 then (ip - 1, fp + 1000000) else (ip, fp));
          u = (ymd2ord 1970 1 1 * 86400 + s) * us_per_second + us;
          y = year_of_ord (u div us_per_day)
      in if s < - (2 ^ 63) \<or> 2 ^ 63 \<le> s then Inl OverflowError
         else if y - 1900 < - (2 ^ 31) \<or> 2 ^ 31 \<le> y - 1900 then Inl OSError
         else if y < MINYEAR \<or> MAXYEAR < y then Inl ValueError
         else Inr (of_us u))"

section \<open>Timestamp converters\<close>

text \<open>
  The three methods \<^verbatim>\<open>chrome_to_timestamp\<close>, \<^verbatim>\<open>webkit_to_timestamp\<close> and
  \<^verbatim>\<open>firefox_to_timestamp\<close> of \<^verbatim>\<open>BrowserHistoryParser\<close>. None of them catches an
  exception; an argument that is not an integer makes the arithmetic raise \<^verbatim>\<open>TypeError\<close>.
\<close>

definition epoch_1601 :: datetime where
  "epoch_1601 = \<lparr> year = 1601, month = 1, day = 1, hour = 0, minute = 0, second = 0,
                   microsecond = 0 \<rparr>"

definition epoch_2001 :: datetime where
  "epoch_2001 = \<lparr> year = 2001, month = 1, day = 1, hour = 0, minute = 0, second = 0,
                   microsecond = 0 \<rparr>"

definition chrome_to_timestamp :: "sqlval \<Rightarrow> pyexc + string" where
  "chrome_to_timestamp chrome_time =
     (if eq_zero chrome_time then Inr ''Never''
      else case chrome_time of
             SInt n \<Rightarrow>
               and_then (timedelta n) (\<lambda>delta.
               and_then (datetime_add epoch_1601 delta) (\<lambda>chrome_datetime.
               Inr (strftime chrome_datetime)))
           | _ \<Rightarrow> Inl TypeError)"

definition webkit_to_timestamp :: "sqlval \<Rightarrow> pyexc + string" where
  "webkit_to_timestamp webkit_time =
     (if eq_zero webkit_time then Inr ''Never''
      else case webkit_time of
             SInt n \<Rightarrow>
               and_then (timedelta (n * us_per_second)) (\<lambda>delta.
               and_then (datetime_add epoch_2001 delta) (\<lambda>webkit_datetime.
               Inr (strftime webkit_datetime)))
           | _ \<Rightarrow> Inl TypeError)"

definition firefox_to_timestamp :: "sqlval \<Rightarrow> pyexc + string" where
  "firefox_to_timestamp firefox_time =
     (if eq_zero firefox_time then Inr ''Never''
      else case firefox_time of
             SInt n \<Rightarrow>
               and_then (int_truediv n 1000000) (\<lambda>x.
               and_then (fromtimestamp_utc x) (\<lambda>firefox_datetime.
               Inr (strftime firefox_datetime)))
           | _ \<Rightarrow> Inl TypeError)"

section \<open>Artifacts\<close>

text \<open>
  An artifact is what \<^verbatim>\<open>sqlite3.connect(self.db_path)\<close> and the queries that follow can
  observe of the file: whether the connection can be made, what the inventory query
  \<^verbatim>\<open>SELECT name FROM sqlite_master WHERE type='table'\<close> answers, and which relation (a
  table or a view) each name of a \<^verbatim>\<open>FROM\<close> clause resolves to. A name that does not
  resolve, a missing column or an unreadable page makes SQLite raise; all of these are
  an \<open>OperationalError\<close> here. A row of a relation maps column names to cells.
\<close>

type_synonym tuple = "string \<Rightarrow> sqlval"

record relation =
  columns :: "string list"
  tuples :: "tuple list"

record database =
  table_names :: "pyexc + sqlval list"
  relations :: "string \<Rightarrow> relation option"

type_synonym artifact = "pyexc + database"

subsection \<open>The SQL the parser issues\<close>

text \<open>
  The queries are the fixed texts of \<^verbatim>\<open>app.py\<close>; each is written out below with the
  relational operators it uses. \<open>=\<close> holds between two cells that are not NULL and are
  the same stored value; \<^verbatim>\<open>ORDER BY c DESC\<close> sorts by SQLite's order of storage classes
  (NULL, then integers, then text, then blobs, the latter two bytewise) and puts the
  largest first; \<^verbatim>\<open>LIMIT n\<close> keeps the first \<open>n\<close> rows of that.
\<close>

definition from_clause :: "database \<Rightarrow> string \<Rightarrow> string list \<Rightarrow> pyexc + relation" where
  "from_clause conn name cs =
     (case relations conn name of
        None \<Rightarrow> Inl OperationalError
      | Some r \<Rightarrow> if set cs \<subseteq> set (columns r) then Inr r else Inl OperationalError)"

definition sql_eq :: "sqlval \<Rightarrow> sqlval \<Rightarrow> bool" where
  "sql_eq a b = (a \<noteq> SNull \<and> b \<noteq> SNull \<and> a = b)"

definition null_tuple :: tuple where
  "null_tuple = (\<lambda>c. SNull)"

text \<open>The right side of a \<^verbatim>\<open>LEFT JOIN\<close> for one left row: its matches, or one row of NULLs.\<close>

definition left_join :: "relation \<Rightarrow> (tuple \<Rightarrow> bool) \<Rightarrow> tuple list" where
  "left_join r on = (case filter on (tuples r) of [] \<Rightarrow> [null_tuple] | ms \<Rightarrow> ms)"

fun order_rank :: "sqlval \<Rightarrow> nat \<times> int \<times> nat list" where
  "order_rank SNull = (0, 0, [])"
| "order_rank (SInt i) = (1, i, [])"
| "order_rank (SText s) = (2, 0, map of_char s)"
| "order_rank (SBlob b) = (3, 0, map of_char b)"

definition order_by_desc :: "('r \<Rightarrow> sqlval) \<Rightarrow> 'r list \<Rightarrow> 'r list" where
  "order_by_desc c rs = rev (sort_key (\<lambda>r. order_rank (c r)) rs)"

definition limit :: "nat \<Rightarrow> 'r list \<Rightarrow> 'r list" where
  "limit n rs = take n rs"

text \<open>
  An unqualified column of a join names the one joined relation that has it; no such
  relation, or more than one, is an error of the statement.
\<close>

definition unqualified :: "relation list \<Rightarrow> string \<Rightarrow> pyexc + nat" where
  "unqualified rs c =
     (case filter (\<lambda>i. c \<in> set (columns (rs ! i))) [0 ..< length rs] of
        [i] \<Rightarrow> Inr i
      | _ \<Rightarrow> Inl OperationalError)"

type_synonym row4 = "sqlval \<times> sqlval \<times> sqlval \<times> sqlval"
type_synonym row5 = "sqlval \<times> sqlval \<times> sqlval \<times> sqlval \<times> sqlval"
type_synonym row6 = "sqlval \<times> sqlval \<times> sqlval \<times> sqlval \<times> sqlval \<times> sqlval"
type_synonym row7 = "sqlval \<times> sqlval \<times> sqlval \<times> sqlval \<times> sqlval \<times> sqlval \<times> sqlval"

definition chrome_history_query :: "database \<Rightarrow> pyexc + row6 list" where
  "chrome_history_query conn =
     and_then (from_clause conn ''urls''
        [''last_visit_time'', ''url'', ''title'', ''visit_count'', ''typed_count'', ''hidden''])
     (\<lambda>urls. Inr (order_by_desc fst
        [(u ''last_visit_time'', u ''url'', u ''title'', u ''visit_count'', u ''typed_count'',
          u ''hidden''). u \<leftarrow> tuples urls]))"

definition firefox_history_query :: "database \<Rightarrow> pyexc + row6 list" where
  "firefox_history_query conn =
     and_then (from_clause conn ''moz_places''
        [''last_visit_date'', ''url'', ''title'', ''visit_count'', ''typed'', ''hidden''])
     (\<lambda>moz_places. Inr (order_by_desc fst
        [(p ''last_visit_date'', p ''url'', p ''title'', p ''visit_count'', p ''typed'',
          p ''hidden''). p \<leftarrow> tuples moz_places, p ''last_visit_date'' \<noteq> SNull]))"

definition safari_history_query :: "database \<Rightarrow> pyexc + row4 list" where
  "safari_history_query conn =
     and_then (from_clause conn ''history_items''
        [''visit_time'', ''url'', ''domain_expansion'', ''visit_count''])
     (\<lambda>history_items. Inr (order_by_desc fst
        [(h ''visit_time'', h ''url'', h ''domain_expansion'', h ''visit_count'').
           h \<leftarrow> tuples history_items]))"

definition chrome_downloads_query :: "database \<Rightarrow> pyexc + row7 list" where
  "chrome_downloads_query conn =
     and_then (from_clause conn ''downloads''
        [''start_time'', ''end_time'', ''target_path'', ''received_bytes'', ''total_bytes'',
         ''tab_url'', ''tab_referrer_url''])
     (\<lambda>downloads. Inr (order_by_desc fst
        [(d ''start_time'', d ''end_time'', d ''target_path'', d ''received_bytes'',
          d ''total_bytes'', d ''tab_url'', d ''tab_referrer_url''). d \<leftarrow> tuples downloads]))"

definition firefox_downloads_query :: "database \<Rightarrow> pyexc + row4 list" where
  "firefox_downloads_query conn =
     and_then (from_clause conn ''moz_anno_attributes'' [''id'', ''name'']) (\<lambda>aa.
     and_then (from_clause conn ''moz_annos'' [''anno_attribute_id'', ''place_id'']) (\<lambda>a.
     and_then (from_clause conn ''moz_places'' [''id'']) (\<lambda>p.
     and_then (unqualified [aa, a, p] ''dateAdded'') (\<lambda>i0.
     and_then (unqualified [aa, a, p] ''lastModified'') (\<lambda>i1.
     and_then (unqualified [aa, a, p] ''title'') (\<lambda>i2.
     and_then (unqualified [aa, a, p] ''content'') (\<lambda>i3.
     Inr (order_by_desc fst
        [(([x, y, z] ! i0) ''dateAdded'', ([x, y, z] ! i1) ''lastModified'',
          ([x, y, z] ! i2) ''title'', ([x, y, z] ! i3) ''content'').
           x \<leftarrow> tuples aa,
           y \<leftarrow> tuples a, sql_eq (x ''id'') (y ''anno_attribute_id''),
           z \<leftarrow> tuples p, sql_eq (y ''place_id'') (z ''id''),
           sql_eq (x ''name'') (SText ''downloads/destinationFileURI'')]))))))))"

definition chrome_visits_query :: "database \<Rightarrow> pyexc + row6 list" where
  "chrome_visits_query conn =
     and_then (from_clause conn ''visits''
        [''visit_time'', ''transition'', ''url'', ''from_visit'', ''id'']) (\<lambda>visits.
     and_then (from_clause conn ''urls'' [''url'', ''title'', ''id'']) (\<lambda>urls.
     Inr (limit 1000 (order_by_desc fst
        [(v ''visit_time'', u ''url'', u ''title'', v ''transition'', ref_u ''url'',
          ref_u ''title'').
           v \<leftarrow> tuples visits,
           u \<leftarrow> tuples urls, sql_eq (v ''url'') (u ''id''),
           ref_v \<leftarrow> left_join visits (\<lambda>r. sql_eq (v ''from_visit'') (r ''id'')),
           ref_u \<leftarrow> left_join urls (\<lambda>r. sql_eq (ref_v ''url'') (r ''id''))]))))"

definition firefox_visits_query :: "database \<Rightarrow> pyexc + row6 list" where
  "firefox_visits_query conn =
     and_then (from_clause conn ''moz_historyvisits''
        [''visit_date'', ''visit_type'', ''place_id'', ''from_visit'', ''id'']) (\<lambda>hvs.
     and_then (from_clause conn ''moz_places'' [''url'', ''title'', ''id'']) (\<lambda>places.
     Inr (limit 1000 (order_by_desc fst
        [(hv ''visit_date'', p ''url'', p ''title'', hv ''visit_type'', ref_p ''url'',
          ref_p ''title'').
           hv \<leftarrow> tuples hvs,
           p \<leftarrow> tuples places, sql_eq (hv ''place_id'') (p ''id''),
           ref_hv \<leftarrow> left_join hvs (\<lambda>r. sql_eq (hv ''from_visit'') (r ''id'')),
           ref_p \<leftarrow> left_join places (\<lambda>r. sql_eq (ref_hv ''place_id'') (r ''id''))]))))"

definition chrome_search_terms_query :: "database \<Rightarrow> pyexc + row5 list" where
  "chrome_search_terms_query conn =
     and_then (from_clause conn ''keyword_search_terms''
        [''last_visit_time'', ''url'', ''term'', ''url_id'']) (\<lambda>kts.
     and_then (from_clause conn ''urls'' [''title'', ''visit_count'', ''id'']) (\<lambda>urls.
     Inr (order_by_desc fst
        [(kt ''last_visit_time'', kt ''url'', kt ''term'', u ''title'', u ''visit_count'').
           kt \<leftarrow> tuples kts,
           u \<leftarrow> tuples urls, sql_eq (kt ''url_id'') (u ''id'')])))"

section \<open>The parser\<close>

subsection \<open>Python helpers of the row loops\<close>

text \<open>A result dictionary: its items in insertion order.\<close>

type_synonym pydict = "(string \<times> pyval) list"

text \<open>\<^verbatim>\<open>d.get(k, default)\<close>.\<close>

definition dict_get :: "('k \<times> 'v) list \<Rightarrow> 'k \<Rightarrow> 'v \<Rightarrow> 'v" where
  "dict_get d k dflt = (case map_of d k of Some v \<Rightarrow> v | None \<Rightarrow> dflt)"

text \<open>
  \<^verbatim>\<open>for row in results: data.append(f(row))\<close>: the first row whose mapping raises ends
  the loop with that exception.
\<close>

fun for_rows :: "('r \<Rightarrow> pyexc + 'd) \<Rightarrow> 'r list \<Rightarrow> pyexc + 'd list" where
  "for_rows f [] = Inr []"
| "for_rows f (row # results) =
     and_then (f row) (\<lambda>d. and_then (for_rows f results) (\<lambda>data. Inr (d # data)))"

text \<open>\<^verbatim>\<open>os.path.basename\<close> on a POSIX host: what follows the last slash.\<close>

definition after_last_slash :: "string \<Rightarrow> string" where
  "after_last_slash s = rev (takeWhile (\<lambda>c. c \<noteq> CHR ''/'') (rev s))"

fun basename :: "sqlval \<Rightarrow> pyexc + pyval" where
  "basename (SText s) = Inr (PyStr (after_last_slash s))"
| "basename (SBlob b) = Inr (PyBytes (after_last_slash b))"
| "basename _ = Inl TypeError"

text \<open>
  What an f-string puts in place of \<^verbatim>\<open>{x}\<close>: the decimal text of an integer, a string
  as it is, the \<^verbatim>\<open>repr\<close> of a byte string.
\<close>

definition hex_digit :: "nat \<Rightarrow> char" where
  "hex_digit d = ''0123456789abcdef'' ! (d mod 16)"

definition bytes_repr_char :: "char \<Rightarrow> char \<Rightarrow> string" where
  "bytes_repr_char quote c =
     (if c = quote \<or> c = CHR 0x5C then [CHR 0x5C, c]
      else if c = CHR 0x09 then [CHR 0x5C, CHR ''t'']
      else if c = CHR 0x0A then [CHR 0x5C, CHR ''n'']
      else if c = CHR 0x0D then [CHR 0x5C, CHR ''r'']
      else if (of_char c :: nat) < 32 \<or> 127 \<le> (of_char c :: nat)
        then [CHR 0x5C, CHR ''x'', hex_digit (of_char c div 16), hex_digit (of_char c)]
      else [c])"

definition bytes_repr :: "string \<Rightarrow> string" where
  "bytes_repr b =
     (let quote = (if CHR 0x27 \<in> set b \<and> CHR 0x22 \<notin> set b then CHR 0x22 else CHR 0x27)
      in CHR ''b'' # quote # concat (map (bytes_repr_char quote) b) @ [quote])"

fun py_format :: "sqlval \<Rightarrow> string" where
  "py_format SNull = ''None''"
| "py_format (SInt i) = str_int i"
| "py_format (SText s) = s"
| "py_format (SBlob b) = bytes_repr b"

subsection \<open>Construction and browser detection\<close>

record parser =
  db_path :: artifact
  browser_type :: string

definition detect_browser_type :: "artifact \<Rightarrow> string" where
  "detect_browser_type path =
     (case and_then path table_names of
        Inr tables \<Rightarrow>
          if SText ''urls'' \<in> set tables \<and> SText ''visits'' \<in> set tables
               \<and> SText ''downloads'' \<in> set tables
            then ''chrome''
          else if SText ''moz_places'' \<in> set tables \<and> SText ''moz_historyvisits'' \<in> set tables
            then ''firefox''
          else if SText ''history_items'' \<in> set tables \<and> SText ''history_visits'' \<in> set tables
            then ''safari''
          else ''unknown''
      | Inl e \<Rightarrow> ''unknown'')"

definition BrowserHistoryParser :: "artifact \<Rightarrow> parser" where
  "BrowserHistoryParser path = \<lparr> db_path = path, browser_type = detect_browser_type path \<rparr>"

subsection \<open>History\<close>

definition chrome_history_row :: "row6 \<Rightarrow> pyexc + pydict" where
  "chrome_history_row row =
     (case row of (r0, r1, r2, r3, r4, r5) \<Rightarrow>
        and_then (chrome_to_timestamp r0) (\<lambda>t. Inr
          [(''last_visit_time'', PyStr t),
           (''url'', py_or r1 (PyStr [])),
           (''title'', py_or r2 (PyStr [])),
           (''visit_count'', py_or r3 (PyInt 0)),
           (''typed_count'', py_or r4 (PyInt 0)),
           (''is_hidden'', PyStr (if truthy r5 then ''Yes'' else ''No''))]))"

definition firefox_history_row :: "row6 \<Rightarrow> pyexc + pydict" where
  "firefox_history_row row =
     (case row of (r0, r1, r2, r3, r4, r5) \<Rightarrow>
        and_then (firefox_to_timestamp r0) (\<lambda>t. Inr
          [(''last_visit_time'', PyStr t),
           (''url'', py_or r1 (PyStr [])),
           (''title'', py_or r2 (PyStr [])),
           (''visit_count'', py_or r3 (PyInt 0)),
           (''typed_count'', py_or r4 (PyInt 0)),
           (''is_hidden'', PyStr (if truthy r5 then ''Yes'' else ''No''))]))"

definition safari_history_row :: "row4 \<Rightarrow> pyexc + pydict" where
  "safari_history_row row =
     (case row of (r0, r1, r2, r3) \<Rightarrow>
        and_then (webkit_to_timestamp r0) (\<lambda>t. Inr
          [(''last_visit_time'', PyStr t),
           (''url'', py_or r1 (PyStr [])),
           (''title'', py_or r2 (PyStr [])),
           (''visit_count'', py_or r3 (PyInt 0)),
           (''typed_count'', PyInt 0),
           (''is_hidden'', PyStr ''No'')]))"

text \<open>
  The body of the \<^verbatim>\<open>try\<close> block. With a browser type that is none of the three,
  \<^verbatim>\<open>data\<close> is never bound and \<^verbatim>\<open>return data\<close> raises \<^verbatim>\<open>UnboundLocalError\<close>.
\<close>

definition history_try :: "parser \<Rightarrow> pyexc + pydict list" where
  "history_try self =
     and_then (db_path self) (\<lambda>conn.
       if browser_type self = ''chrome''
         then and_then (chrome_history_query conn) (for_rows chrome_history_row)
       else if browser_type self = ''firefox''
         then and_then (firefox_history_query conn) (for_rows firefox_history_row)
       else if browser_type self = ''safari''
         then and_then (safari_history_query conn) (for_rows safari_history_row)
       else Inl UnboundLocalError)"

text \<open>\<^verbatim>\<open>except Exception\<close>: whatever the block raised, the method returns \<^verbatim>\<open>[]\<close>.\<close>

definition get_history_data :: "parser \<Rightarrow> pydict list" where
  "get_history_data self = (case history_try self of Inr data \<Rightarrow> data | Inl e \<Rightarrow> [])"

subsection \<open>Downloads\<close>

definition chrome_downloads_row :: "row7 \<Rightarrow> pyexc + pydict" where
  "chrome_downloads_row row =
     (case row of (r0, r1, r2, r3, r4, r5, r6) \<Rightarrow>
        and_then (if truthy r2 then basename r2 else Inr (PyStr [])) (\<lambda>filename.
        and_then (chrome_to_timestamp r0) (\<lambda>t0.
        and_then (chrome_to_timestamp r1) (\<lambda>t1. Inr
          [(''start_time'', PyStr t0),
           (''end_time'', PyStr t1),
           (''filename'', filename),
           (''path'', py_or r2 (PyStr [])),
           (''received_bytes'', py_or r3 (PyInt 0)),
           (''total_bytes'', py_or r4 (PyInt 0)),
           (''source_url'', py_or r5 (PyStr [])),
           (''referrer_url'', py_or r6 (PyStr []))]))))"

definition firefox_downloads_row :: "row4 \<Rightarrow> pyexc + pydict" where
  "firefox_downloads_row row =
     (case row of (r0, r1, r2, r3) \<Rightarrow>
        and_then (firefox_to_timestamp r0) (\<lambda>t0.
        and_then (firefox_to_timestamp r1) (\<lambda>t1. Inr
          [(''start_time'', PyStr t0),
           (''end_time'', PyStr t1),
           (''filename'', py_or r2 (PyStr [])),
           (''path'', py_or r3 (PyStr [])),
           (''received_bytes'', PyInt 0),
           (''total_bytes'', PyInt 0),
           (''source_url'', PyStr []),
           (''referrer_url'', PyStr [])])))"

definition downloads_try :: "parser \<Rightarrow> pyexc + pydict list" where
  "downloads_try self =
     and_then (db_path self) (\<lambda>conn.
       if browser_type self = ''chrome''
         then and_then (chrome_downloads_query conn) (for_rows chrome_downloads_row)
       else if browser_type self = ''firefox''
         then and_then (firefox_downloads_query conn) (for_rows firefox_downloads_row)
       else Inr [])"

definition get_downloads_data :: "parser \<Rightarrow> pydict list" where
  "get_downloads_data self = (case downloads_try self of Inr data \<Rightarrow> data | Inl e \<Rightarrow> [])"

subsection \<open>Visits\<close>

definition transition_types :: "(sqlval \<times> string) list" where
  "transition_types =
     [(SInt 0, ''Link''),
      (SInt 1, ''Typed''),
      (SInt 2, ''Auto Bookmark''),
      (SInt 3, ''Auto Subframe''),
      (SInt 4, ''Manual Subframe''),
      (SInt 5, ''Generated''),
      (SInt 6, ''Start Page''),
      (SInt 7, ''Form Submit''),
      (SInt 8, ''Reload'')]"

definition chrome_visits_row :: "row6 \<Rightarrow> pyexc + pydict" where
  "chrome_visits_row row =
     (case row of (r0, r1, r2, r3, r4, r5) \<Rightarrow>
        and_then (chrome_to_timestamp r0) (\<lambda>t. Inr
          [(''visit_time'', PyStr t),
           (''url'', py_or r1 (PyStr [])),
           (''title'', py_or r2 (PyStr [])),
           (''transition'', PyStr (dict_get transition_types r3 ''Unknown'')),
           (''referrer_url'', py_or r4 (PyStr [])),
           (''referrer_title'', py_or r5 (PyStr [])),
           (''segment_name'', PyStr ''Chrome History'')]))"

definition firefox_visits_row :: "row6 \<Rightarrow> pyexc + pydict" where
  "firefox_visits_row row =
     (case row of (r0, r1, r2, r3, r4, r5) \<Rightarrow>
        and_then (firefox_to_timestamp r0) (\<lambda>t. Inr
          [(''visit_time'', PyStr t),
           (''url'', py_or r1 (PyStr [])),
           (''title'', py_or r2 (PyStr [])),
           (''transition'', PyStr (if truthy r3 then ''Type '' @ py_format r3 else ''Unknown'')),
           (''referrer_url'', py_or r4 (PyStr [])),
           (''referrer_title'', py_or r5 (PyStr [])),
           (''segment_name'', PyStr ''Firefox History'')]))"

definition visits_try :: "parser \<Rightarrow> pyexc + pydict list" where
  "visits_try self =
     and_then (db_path self) (\<lambda>conn.
       if browser_type self = ''chrome''
         then and_then (chrome_visits_query conn) (for_rows chrome_visits_row)
       else if browser_type self = ''firefox''
         then and_then (firefox_visits_query conn) (for_rows firefox_visits_row)
       else Inr [])"

definition get_visits_data :: "parser \<Rightarrow> pydict list" where
  "get_visits_data self = (case visits_try self of Inr data \<Rightarrow> data | Inl e \<Rightarrow> [])"

subsection \<open>Search terms\<close>

definition chrome_search_terms_row :: "row5 \<Rightarrow> pyexc + pydict" where
  "chrome_search_terms_row row =
     (case row of (r0, r1, r2, r3, r4) \<Rightarrow>
        and_then (chrome_to_timestamp r0) (\<lambda>t. Inr
          [(''last_visit_time'', PyStr t),
           (''search_url'', py_or r1 (PyStr [])),
           (''term'', py_or r2 (PyStr [])),
           (''page_title'', py_or r3 (PyStr [])),
           (''visit_count'', py_or r4 (PyInt 0))]))"

definition search_terms_try :: "parser \<Rightarrow> pyexc + pydict list" where
  "search_terms_try self =
     and_then (db_path self) (\<lambda>conn.
       if browser_type self = ''chrome''
         then and_then (chrome_search_terms_query conn) (for_rows chrome_search_terms_row)
       else Inr [])"

definition get_search_terms_data :: "parser \<Rightarrow> pydict list" where
  "get_search_terms_data self =
     (case search_terms_try self of Inr data \<Rightarrow> data | Inl e \<Rightarrow> [])"

section \<open>Example artifacts\<close>

text \<open>Small artifacts on which the statements below are evaluated.\<close>

definition row_of :: "(string \<times> sqlval) list \<Rightarrow> tuple" where
  "row_of kv = (\<lambda>c. case map_of kv c of Some v \<Rightarrow> v | None \<Rightarrow> SNull)"

text \<open>
  A Chromium history file with two pages and two visits, the second visit reached from
  the first. Its inventory also holds the two tables of the gecko signature.
\<close>

definition chrome_example :: database where
  "chrome_example =
     \<lparr> table_names = Inr [SText ''meta'', SText ''moz_places'', SText ''urls'',
         SText ''moz_historyvisits'', SText ''visits'', SText ''downloads''],
       relations = (\<lambda>name.
         if name = ''urls'' then Some
           \<lparr> columns = [''id'', ''url'', ''title'', ''visit_count'', ''typed_count'',
                ''last_visit_time'', ''hidden''],
             tuples =
               [row_of [(''id'', SInt 1), (''url'', SText ''https://a.example/''),
                  (''title'', SText ''A''), (''visit_count'', SInt 2), (''typed_count'', SInt 1),
                  (''last_visit_time'', SInt 13303960000000000), (''hidden'', SInt 0)],
                row_of [(''id'', SInt 2), (''url'', SText ''https://b.example/''),
                  (''title'', SNull), (''visit_count'', SInt 0), (''typed_count'', SInt 0),
                  (''last_visit_time'', SInt 0), (''hidden'', SInt 1)]] \<rparr>
         else if name = ''visits'' then Some
           \<lparr> columns = [''id'', ''url'', ''visit_time'', ''from_visit'', ''transition''],
             tuples =
               [row_of [(''id'', SInt 1), (''url'', SInt 1), (''visit_time'', SInt 0),
                  (''from_visit'', SInt 0), (''transition'', SInt 1)],
                row_of [(''id'', SInt 2), (''url'', SInt 2),
                  (''visit_time'', SInt 13303960000000000), (''from_visit'', SInt 1),
                  (''transition'', SInt 805306368)]] \<rparr>
         else None) \<rparr>"

text \<open>The same file with a third page whose timestamp no date can represent.\<close>

definition chrome_overflow_example :: database where
  "chrome_overflow_example =
     chrome_example \<lparr> relations := (\<lambda>name.
       if name = ''urls'' then Some
         \<lparr> columns = [''id'', ''url'', ''title'', ''visit_count'', ''typed_count'',
              ''last_visit_time'', ''hidden''],
           tuples =
             [row_of [(''id'', SInt 1), (''url'', SText ''https://a.example/''),
                (''title'', SText ''A''), (''visit_count'', SInt 2), (''typed_count'', SInt 1),
                (''last_visit_time'', SInt 13303960000000000), (''hidden'', SInt 0)],
              row_of [(''id'', SInt 3), (''url'', SText ''https://c.example/''),
                (''title'', SText ''C''), (''visit_count'', SInt 1), (''typed_count'', SInt 0),
                (''last_visit_time'', SInt (10 ^ 30)), (''hidden'', SInt 0)]] \<rparr>
       else relations chrome_example name) \<rparr>"

text \<open>A Firefox places file: one page, visited twice, once with visit type 0.\<close>

definition firefox_example :: database where
  "firefox_example =
     \<lparr> table_names = Inr [SText ''moz_places'', SText ''moz_historyvisits''],
       relations = (\<lambda>name.
         if name = ''moz_places'' then Some
           \<lparr> columns = [''id'', ''url'', ''title'', ''visit_count'', ''typed'', ''hidden'',
                ''last_visit_date''],
             tuples =
               [row_of [(''id'', SInt 1), (''url'', SText ''https://a.example/''),
                  (''title'', SText ''A''), (''visit_count'', SInt 2), (''typed'', SInt 0),
                  (''hidden'', SInt 0), (''last_visit_date'', SInt 2000000)]] \<rparr>
         else if name = ''moz_historyvisits'' then Some
           \<lparr> columns = [''id'', ''from_visit'', ''place_id'', ''visit_date'', ''visit_type''],
             tuples =
               [row_of [(''id'', SInt 1), (''from_visit'', SInt 0), (''place_id'', SInt 1),
                  (''visit_date'', SInt 1000000), (''visit_type'', SInt 0)],
                row_of [(''id'', SInt 2), (''from_visit'', SInt 1), (''place_id'', SInt 1),
                  (''visit_date'', SInt 2000000), (''visit_type'', SInt 5)]] \<rparr>
         else None) \<rparr>"

text \<open>A file with the webkit signature whose item table carries the queried columns.\<close>

definition safari_example :: database where
  "safari_example =
     \<lparr> table_names = Inr [SText ''history_items'', SText ''history_visits''],
       relations = (\<lambda>name.
         if name = ''history_items'' then Some
           \<lparr> columns = [''id'', ''url'', ''domain_expansion'', ''visit_count'', ''visit_time''],
             tuples =
               [row_of [(''id'', SInt 1), (''url'', SText ''https://a.example/''),
                  (''domain_expansion'', SNull), (''visit_count'', SInt 3),
                  (''visit_time'', SInt 0)]] \<rparr>
         else None) \<rparr>"

text \<open>A file that opens but is not a database: the inventory query raises.\<close>

definition corrupt_example :: database where
  "corrupt_example = \<lparr> table_names = Inl OperationalError, relations = (\<lambda>name. None) \<rparr>"

section \<open>Properties\<close>

subsection \<open>Auxiliary facts\<close>

lemma and_then_Inr_iff:
  "and_then m f = Inr y \<longleftrightarrow> (\<exists>x. m = Inr x \<and> f x = Inr y)"
  by (cases m) auto

lemma for_rows_Inr:
  "for_rows f rs = Inr ds \<Longrightarrow> list_all2 (\<lambda>r d. f r = Inr d) rs ds"
proof (induction rs arbitrary: ds)
  case Nil
  then show ?case by simp
next
  case (Cons r rs)
  then show ?case by (auto simp: and_then_Inr_iff)
qed

lemma in_result_row:
  "for_rows f rs = Inr ds \<Longrightarrow> d \<in> set ds \<Longrightarrow> \<exists>r \<in> set rs. f r = Inr d"
proof (induction rs arbitrary: ds)
  case Nil
  then show ?case by simp
next
  case (Cons a rs)
  then show ?case by (auto simp: and_then_Inr_iff)
qed

lemma for_rows_Inl:
  "r \<in> set rs \<Longrightarrow> f r = Inl e \<Longrightarrow> \<exists>e'. for_rows f rs = Inl e'"
proof (induction rs)
  case Nil
  then show ?case by simp
next
  case (Cons a rs)
  show ?case
  proof (cases "f a")
    case (Inl x)
    then show ?thesis by simp
  next
    case (Inr d)
    show ?thesis
    proof (cases "for_rows f rs")
      case (Inl x)
      then show ?thesis using Inr by simp
    next
      case inr: (Inr ds)
      from Cons.prems Inr have "r \<in> set rs" by auto
      with Cons.IH Cons.prems inr show ?thesis by auto
    qed
  qed
qed

lemma sorted_order_by_desc:
  "sorted_wrt (\<lambda>r s. order_rank (c s) \<le> order_rank (c r)) (order_by_desc c rs)"
proof -
  have "sorted (map (\<lambda>r. order_rank (c r)) (sort_key (\<lambda>r. order_rank (c r)) rs))"
    by (rule sorted_sort_key)
  then have "sorted_wrt (\<lambda>r s. order_rank (c r) \<le> order_rank (c s))
               (sort_key (\<lambda>r. order_rank (c r)) rs)"
    by (simp add: sorted_map)
  then show ?thesis
    by (simp add: order_by_desc_def sorted_wrt_rev)
qed

lemma sorted_wrt_limit:
  "sorted_wrt P rs \<Longrightarrow> sorted_wrt P (limit n rs)"
  unfolding limit_def by (metis append_take_drop_id sorted_wrt_append)

lemma length_limit: "length (limit n rs) \<le> n"
  by (simp add: limit_def)

lemma strftime_not_Never: "strftime t \<noteq> ''Never''"
proof
  assume h: "strftime t = ''Never''"
  have "last (strftime t) = CHR ''C''"
    by (simp add: strftime_def)
  with h show False by simp
qed

lemma unknown_type_empty:
  "get_history_data \<lparr> db_path = a, browser_type = ''unknown'' \<rparr> = [] \<and>
   get_downloads_data \<lparr> db_path = a, browser_type = ''unknown'' \<rparr> = [] \<and>
   get_visits_data \<lparr> db_path = a, browser_type = ''unknown'' \<rparr> = [] \<and>
   get_search_terms_data \<lparr> db_path = a, browser_type = ''unknown'' \<rparr> = []"
  by (cases a)
     (simp_all add: get_search_terms_data_def search_terms_try_def get_downloads_data_def
        downloads_try_def get_visits_data_def visits_try_def get_history_data_def history_try_def)

text \<open>What the parser answers on the example artifacts.\<close>

lemma chrome_example_type:
  "BrowserHistoryParser (Inr chrome_example) =
     \<lparr> db_path = Inr chrome_example, browser_type = ''chrome'' \<rparr>"
  by (simp add: BrowserHistoryParser_def detect_browser_type_def chrome_example_def)

lemma firefox_example_type:
  "BrowserHistoryParser (Inr firefox_example) =
     \<lparr> db_path = Inr firefox_example, browser_type = ''firefox'' \<rparr>"
  by (simp add: BrowserHistoryParser_def detect_browser_type_def firefox_example_def)

lemma chrome_example_visits:
  "get_visits_data (BrowserHistoryParser (Inr chrome_example)) =
     [[(''visit_time'', PyStr ''2022-08-03 00:26:40 UTC''),
       (''url'', PyStr ''https://b.example/''), (''title'', PyStr []),
       (''transition'', PyStr ''Unknown''),
       (''referrer_url'', PyStr ''https://a.example/''),
       (''referrer_title'', PyStr ''A''),
       (''segment_name'', PyStr ''Chrome History'')],
      [(''visit_time'', PyStr ''Never''),
       (''url'', PyStr ''https://a.example/''), (''title'', PyStr ''A''),
       (''transition'', PyStr ''Typed''), (''referrer_url'', PyStr []),
       (''referrer_title'', PyStr []),
       (''segment_name'', PyStr ''Chrome History'')]]"
  by code_simp

lemma chrome_example_history:
  "get_history_data (BrowserHistoryParser (Inr chrome_example)) =
     [[(''last_visit_time'', PyStr ''2022-08-03 00:26:40 UTC''),
       (''url'', PyStr ''https://a.example/''), (''title'', PyStr ''A''),
       (''visit_count'', PyInt 2), (''typed_count'', PyInt 1),
       (''is_hidden'', PyStr ''No'')],
      [(''last_visit_time'', PyStr ''Never''),
       (''url'', PyStr ''https://b.example/''), (''title'', PyStr []),
       (''visit_count'', PyInt 0), (''typed_count'', PyInt 0),
       (''is_hidden'', PyStr ''Yes'')]]"
  by code_simp

lemma firefox_example_visits:
  "get_visits_data (BrowserHistoryParser (Inr firefox_example)) =
     [[(''visit_time'', PyStr ''1970-01-01 00:00:02 UTC''),
       (''url'', PyStr ''https://a.example/''), (''title'', PyStr ''A''),
       (''transition'', PyStr ''Type 5''),
       (''referrer_url'', PyStr ''https://a.example/''),
       (''referrer_title'', PyStr ''A''),
       (''segment_name'', PyStr ''Firefox History'')],
      [(''visit_time'', PyStr ''1970-01-01 00:00:01 UTC''),
       (''url'', PyStr ''https://a.example/''), (''title'', PyStr ''A''),
       (''transition'', PyStr ''Unknown''), (''referrer_url'', PyStr []),
       (''referrer_title'', PyStr []),
       (''segment_name'', PyStr ''Firefox History'')]]"
  by code_simp

subsection \<open>Browser detection\<close>

text \<open>
  C1. When the inventory of table names can be listed, detection answers by the first
  signature the names include, in the fixed order: \<open>urls\<close>, \<open>visits\<close> and \<open>downloads\<close>
  give \<open>chrome\<close> (chromium); else \<open>moz_places\<close> and \<open>moz_historyvisits\<close> give \<open>firefox\<close>
  (gecko); else \<open>history_items\<close> and \<open>history_visits\<close> give \<open>safari\<close> (webkit); else
  \<open>unknown\<close>.
\<close>

theorem detect_browser_type_precedence:
  assumes "table_names conn = Inr tables"
  shows "detect_browser_type (Inr conn) =
     (if {SText ''urls'', SText ''visits'', SText ''downloads''} \<subseteq> set tables
        then ''chrome''
      else if {SText ''moz_places'', SText ''moz_historyvisits''} \<subseteq> set tables
        then ''firefox''
      else if {SText ''history_items'', SText ''history_visits''} \<subseteq> set tables
        then ''safari''
      else ''unknown'')"
  using assms by (simp add: detect_browser_type_def)

text \<open>The example inventory holds the chromium and the gecko signature: chromium wins.\<close>

theorem detect_browser_type_precedence_witness:
  "detect_browser_type (Inr chrome_example) = ''chrome''"
  using detect_browser_type_precedence [of chrome_example
    "[SText ''meta'', SText ''moz_places'', SText ''urls'', SText ''moz_historyvisits'',
      SText ''visits'', SText ''downloads'']"]
  by (simp add: chrome_example_def)

text \<open>
  C2. For an artifact that cannot be opened, or whose inventory cannot be listed, the
  parser's browser type is \<open>unknown\<close> and each of the four extraction operations returns
  the empty list.
\<close>

theorem unreadable_artifact_degrades:
  assumes "path = Inl e \<or> (path = Inr conn \<and> table_names conn = Inl e)"
  shows "browser_type (BrowserHistoryParser path) = ''unknown'' \<and>
         get_history_data (BrowserHistoryParser path) = [] \<and>
         get_downloads_data (BrowserHistoryParser path) = [] \<and>
         get_visits_data (BrowserHistoryParser path) = [] \<and>
         get_search_terms_data (BrowserHistoryParser path) = []"
proof -
  from assms have "detect_browser_type path = ''unknown''"
    by (auto simp: detect_browser_type_def)
  then have "BrowserHistoryParser path = \<lparr> db_path = path, browser_type = ''unknown'' \<rparr>"
    by (simp add: BrowserHistoryParser_def)
  with unknown_type_empty [of path] show ?thesis by simp
qed

theorem unreadable_artifact_degrades_witness:
  "browser_type (BrowserHistoryParser (Inr corrupt_example)) = ''unknown'' \<and>
   get_history_data (BrowserHistoryParser (Inr corrupt_example)) = [] \<and>
   get_downloads_data (BrowserHistoryParser (Inr corrupt_example)) = [] \<and>
   get_visits_data (BrowserHistoryParser (Inr corrupt_example)) = [] \<and>
   get_search_terms_data (BrowserHistoryParser (Inr corrupt_example)) = [] \<and>
   browser_type (BrowserHistoryParser (Inl OSError)) = ''unknown'' \<and>
   get_history_data (BrowserHistoryParser (Inl OSError)) = []"
  using unreadable_artifact_degrades
          [of "Inr corrupt_example" OperationalError corrupt_example]
        unreadable_artifact_degrades [of "Inl OSError" OSError corrupt_example]
  by (simp add: corrupt_example_def)

subsection \<open>Timestamp converters\<close>

text \<open>C7. Each of the three converters maps the raw value 0 to the string \<open>Never\<close>.\<close>

theorem zero_is_Never:
  "chrome_to_timestamp (SInt 0) = Inr ''Never'' \<and>
   webkit_to_timestamp (SInt 0) = Inr ''Never'' \<and>
   firefox_to_timestamp (SInt 0) = Inr ''Never''"
  by (simp add: chrome_to_timestamp_def webkit_to_timestamp_def firefox_to_timestamp_def)

end
